theory Spec2Isabelle
  imports Main "HOL-Library.AList"
begin

section \<open>Data model of the cashier cart ledger\<close>

text \<open>
  The cart store (\<^verbatim>\<open>lib/carts\<close>) and the cashier page keep their data in plain
  objects. Each interface is a record; JavaScript numbers that hold quantities and
  prices are modelled as unbounded integers, strings as \<^typ>\<open>string\<close>.
  Field names carry a prefix because two interfaces share \<^verbatim>\<open>id\<close> and \<^verbatim>\<open>name\<close>.
\<close>

record CartItem =
  ci_id :: string
  ci_sku :: string
  ci_name :: string
  ci_price :: int
  ci_quantity :: int

record SavedCart =
  sc_id :: string
  sc_name :: string
  sc_items :: "CartItem list"
  sc_total :: int
  sc_createdAt :: string
  sc_updatedAt :: string

text \<open>
  \<^verbatim>\<open>Product\<close> of the cashier page; \<^verbatim>\<open>sku\<close> is optional in the source.
  The category object is carried along by the page but never read by the cart logic.
\<close>

record Product =
  p_id :: string
  p_name :: string
  p_sku :: "string option"
  p_category :: "string \<times> string"
  p_selling_price :: int

text \<open>
  \<^verbatim>\<open>InventoryItem\<close>: one stock batch. The expiry date is kept as a day number, the
  granularity at which \<^verbatim>\<open>getExpiryStatus\<close> compares dates (both dates are set to
  midnight before they are subtracted).
\<close>

record InventoryItem =
  inv_id :: string
  inv_product :: Product
  inv_quantity :: int
  inv_expiry_date :: int
  inv_location :: string

datatype ExpiryStatus = valid | near_expiry | expired

text \<open>
  The React state of \<^verbatim>\<open>CashierPage\<close> that the cart logic reads or writes, together
  with the browser's \<^verbatim>\<open>localStorage\<close> slot \<^verbatim>\<open>warung_saved_carts\<close> (the parsed array; an
  absent slot reads as the empty array) and the current day of the clock.
\<close>

record LedgerState =
  cart :: "CartItem list"
  savedCarts :: "SavedCart list"
  currentCartId :: "string option"
  cartName :: string
  customerName :: string
  inventory :: "InventoryItem list"
  isSaveCartModalOpen :: bool
  isLoadCartModalOpen :: bool
  isCheckoutModalOpen :: bool
  localStorage :: "SavedCart list"
  today :: int

section \<open>JavaScript helpers\<close>

text \<open>
  A JavaScript \<^verbatim>\<open>Map\<close> keeps its entries in insertion order and \<^verbatim>\<open>set\<close> overwrites the
  entry of an existing key in place: this is an association list with
  \<^const>\<open>AList.update\<close>. \<^verbatim>\<open>m.get(k) || 0\<close> reads a key with default 0.
\<close>

type_synonym QuantityMap = "(string \<times> int) list"

definition getOr0 :: "QuantityMap \<Rightarrow> string \<Rightarrow> int" where
  "getOr0 m k = (case map_of m k of None \<Rightarrow> 0 | Some v \<Rightarrow> v)"

text \<open>Truthiness of a value of type \<^verbatim>\<open>string | null\<close> (or an optional string):
  \<^verbatim>\<open>null\<close>, \<^verbatim>\<open>undefined\<close> and the empty string are falsy.\<close>

definition truthy :: "string option \<Rightarrow> bool" where
  "truthy v = (case v of None \<Rightarrow> False | Some t \<Rightarrow> t \<noteq> [])"

section \<open>Availability computation (cashier page)\<close>

definition getExpiryStatus :: "int \<Rightarrow> int \<Rightarrow> ExpiryStatus" where
  "getExpiryStatus todayDay expiryDate =
     (let diffDays = expiryDate - todayDay
      in if diffDays < 0 then expired
         else if diffDays \<le> 7 then near_expiry
         else valid)"

text \<open>The body of both \<^verbatim>\<open>items.forEach\<close> loops of \<^verbatim>\<open>reservedQuantities\<close>.\<close>

definition reserveItem :: "CartItem \<Rightarrow> QuantityMap \<Rightarrow> QuantityMap" where
  "reserveItem item reservedMap =
     (let productId = ci_id item;
          currentReserved = getOr0 reservedMap productId
      in AList.update productId (currentReserved + ci_quantity item) reservedMap)"

definition reservedQuantities ::
  "SavedCart list \<Rightarrow> CartItem list \<Rightarrow> string option \<Rightarrow> QuantityMap" where
  "reservedQuantities saved live cid =
     (let reservedMap =
            fold (\<lambda>savedCart m.
                    if truthy cid \<and> Some (sc_id savedCart) = cid then m
                    else fold reserveItem (sc_items savedCart) m)
                 saved []
      in fold reserveItem live reservedMap)"

definition totalInventoryQuantity :: "int \<Rightarrow> InventoryItem list \<Rightarrow> QuantityMap" where
  "totalInventoryQuantity todayDay stock =
     fold (\<lambda>item quantityMap.
             let productId = p_id (inv_product item);
                 currentQuantity = getOr0 quantityMap productId
             in AList.update productId (currentQuantity + inv_quantity item) quantityMap)
          (filter (\<lambda>item.
                     let status = getExpiryStatus todayDay (inv_expiry_date item)
                     in inv_quantity item > 0 \<and> (status = valid \<or> status = near_expiry))
                  stock)
          []"

definition productInventoryQuantity :: "QuantityMap \<Rightarrow> QuantityMap \<Rightarrow> QuantityMap" where
  "productInventoryQuantity totalMap reservedMap =
     fold (\<lambda>(productId, reservedQty) quantityMap.
             let available = getOr0 quantityMap productId
             in AList.update productId (max 0 (available - reservedQty)) quantityMap)
          reservedMap totalMap"

text \<open>The three memoised maps as functions of the page state.\<close>

definition stateReserved :: "LedgerState \<Rightarrow> QuantityMap" where
  "stateReserved s = reservedQuantities (savedCarts s) (cart s) (currentCartId s)"

definition stateTotal :: "LedgerState \<Rightarrow> QuantityMap" where
  "stateTotal s = totalInventoryQuantity (today s) (inventory s)"

definition stateAvailable :: "LedgerState \<Rightarrow> QuantityMap" where
  "stateAvailable s = productInventoryQuantity (stateTotal s) (stateReserved s)"

text \<open>\<^verbatim>\<open>productInventoryQuantity.get(id) || 0\<close>, the available quantity every caller reads.\<close>

definition computeAvailable :: "LedgerState \<Rightarrow> string \<Rightarrow> int" where
  "computeAvailable s productId = getOr0 (stateAvailable s) productId"

subsection \<open>The specification's reading of availability\<close>

text \<open>
  Sellable stock of a product: the quantities of its stock records that are positive
  and not expired, added up.
\<close>

definition totalSellableStock :: "int \<Rightarrow> InventoryItem list \<Rightarrow> string \<Rightarrow> int" where
  "totalSellableStock todayDay stock P =
     sum_list (map inv_quantity
       (filter (\<lambda>r. p_id (inv_product r) = P \<and> inv_quantity r > 0 \<and>
                     getExpiryStatus todayDay (inv_expiry_date r) \<in> {valid, near_expiry})
               stock))"

text \<open>Quantity of a product reserved by a list of cart lines.\<close>

definition reservedQty :: "CartItem list \<Rightarrow> string \<Rightarrow> int" where
  "reservedQty its P = sum_list (map ci_quantity (filter (\<lambda>i. ci_id i = P) its))"

text \<open>Reservations of all saved carts other than the one whose id is the current cart id.\<close>

definition otherCartsReserved :: "SavedCart list \<Rightarrow> string option \<Rightarrow> string \<Rightarrow> int" where
  "otherCartsReserved saved cid P =
     sum_list (map (\<lambda>c. reservedQty (sc_items c) P)
       (filter (\<lambda>c. Some (sc_id c) \<noteq> cid) saved))"

definition specAvailable :: "LedgerState \<Rightarrow> string \<Rightarrow> int" where
  "specAvailable s P =
     max 0 (totalSellableStock (today s) (inventory s) P
            - otherCartsReserved (savedCarts s) (currentCartId s) P
            - reservedQty (cart s) P)"

section \<open>The cart store\<close>

text \<open>
  The clock values a store operation reads: \<^verbatim>\<open>new Date().toISOString()\<close>,
  \<^verbatim>\<open>Date.now()\<close> and \<^verbatim>\<open>new Date().toLocaleString("id-ID", ...)\<close>.
\<close>

record Clock =
  nowISO :: string
  nowMillis :: nat
  nowLocale :: string

text \<open>Decimal rendering of a non-negative integer inside a template literal.\<close>

fun decimal :: "nat \<Rightarrow> string" where
  "decimal n =
     (if n < 10 then [''0123456789'' ! n]
      else decimal (n div 10) @ [''0123456789'' ! (n mod 10)])"

declare decimal.simps [simp del]

text \<open>\<^verbatim>\<open>a || b\<close> on an optional string and a string.\<close>

definition orElse :: "string option \<Rightarrow> string \<Rightarrow> string" where
  "orElse a b = (case a of None \<Rightarrow> b | Some t \<Rightarrow> if t = [] then b else t)"

text \<open>\<^verbatim>\<open>cartName || undefined\<close>: the empty string becomes an absent argument.\<close>

definition orUndefined :: "string \<Rightarrow> string option" where
  "orUndefined t = (if t = [] then None else Some t)"

text \<open>\<^verbatim>\<open>cart.reduce((sum, item) => sum + item.price * item.quantity, 0)\<close>\<close>

definition cartTotal :: "CartItem list \<Rightarrow> int" where
  "cartTotal c = foldl (\<lambda>sum item. sum + ci_price item * ci_quantity item) 0 c"

text \<open>\<^verbatim>\<open>Array.prototype.findIndex\<close>, with \<^verbatim>\<open>-1\<close> as \<^const>\<open>None\<close>.\<close>

fun findIndex :: "('a \<Rightarrow> bool) \<Rightarrow> 'a list \<Rightarrow> nat option" where
  "findIndex p [] = None"
| "findIndex p (x # xs) =
     (if p x then Some 0 else map_option Suc (findIndex p xs))"

text \<open>
  The store functions take the content of the storage slot and return the new content
  next to their result. The storage itself is taken to be reliable: the \<^verbatim>\<open>catch\<close>
  branches for a failing \<^verbatim>\<open>localStorage\<close> are not part of the model.
\<close>

definition getSavedCarts :: "SavedCart list \<Rightarrow> SavedCart list" where
  "getSavedCarts storage = storage"

definition saveCart ::
  "SavedCart list \<Rightarrow> Clock \<Rightarrow> CartItem list \<Rightarrow> string option \<Rightarrow> SavedCart \<times> SavedCart list" where
  "saveCart storage clk c name =
     (let total = cartTotal c;
          now = nowISO clk;
          cartId = ''cart-'' @ decimal (nowMillis clk);
          cartName = orElse name (''Cart '' @ nowLocale clk);
          savedCart = \<lparr>sc_id = cartId, sc_name = cartName, sc_items = c, sc_total = total,
                       sc_createdAt = now, sc_updatedAt = now\<rparr>;
          carts = getSavedCarts storage
      in (savedCart, savedCart # carts))"

definition updateCart ::
  "SavedCart list \<Rightarrow> Clock \<Rightarrow> string \<Rightarrow> CartItem list \<Rightarrow> string option
     \<Rightarrow> SavedCart option \<times> SavedCart list" where
  "updateCart storage clk cartId c name =
     (let total = cartTotal c;
          now = nowISO clk;
          carts = getSavedCarts storage
      in case findIndex (\<lambda>x. sc_id x = cartId) carts of
           None \<Rightarrow> (None, storage)
         | Some cartIndex \<Rightarrow>
             let spread = (carts ! cartIndex)
                            \<lparr>sc_items := c, sc_total := total, sc_updatedAt := now\<rparr>;
                 updatedCart = (case name of
                                  None \<Rightarrow> spread
                                | Some n \<Rightarrow> if n = [] then spread else spread\<lparr>sc_name := n\<rparr>)
             in (Some updatedCart, carts[cartIndex := updatedCart]))"

definition deleteCart :: "SavedCart list \<Rightarrow> string \<Rightarrow> bool \<times> SavedCart list" where
  "deleteCart storage cartId =
     (let carts = getSavedCarts storage;
          filteredCarts = filter (\<lambda>x. sc_id x \<noteq> cartId) carts
      in (True, filteredCarts))"

section \<open>Cart operations of the cashier page\<close>

text \<open>What the page shows through \<^verbatim>\<open>window.alert\<close>.\<close>

datatype Alert =
    InsufficientInventory (alert_available: int) (alert_requested: int)
  | CartEmpty
  | CartUpdated
  | CartSaved
  | OrderCreated int
  | CheckoutError string

text \<open>
  The function handed to \<^verbatim>\<open>setCart\<close> by \<^verbatim>\<open>addToCart\<close>; \<^verbatim>\<open>availableQuantity\<close> is read
  before, from the memoised map.
\<close>

definition addToCartUpdater ::
  "int \<Rightarrow> Product \<Rightarrow> CartItem list \<Rightarrow> CartItem list \<times> Alert option" where
  "addToCartUpdater availableQuantity product prevCart =
     (let existingItem = find (\<lambda>item. ci_id item = p_id product) prevCart;
          currentCartQuantity = (case existingItem of Some e \<Rightarrow> ci_quantity e | None \<Rightarrow> 0);
          newQuantity = currentCartQuantity + 1
      in if newQuantity > availableQuantity
         then (prevCart, Some (InsufficientInventory availableQuantity newQuantity))
         else if existingItem \<noteq> None
         then (map (\<lambda>item. if ci_id item = p_id product
                            then item\<lparr>ci_quantity := newQuantity\<rparr> else item) prevCart,
               None)
         else (prevCart @
                 [\<lparr>ci_id = p_id product, ci_sku = orElse (p_sku product) [],
                   ci_name = p_name product, ci_price = p_selling_price product,
                   ci_quantity = 1\<rparr>],
               None))"

definition addToCart :: "LedgerState \<Rightarrow> Product \<Rightarrow> LedgerState \<times> Alert option" where
  "addToCart s product =
     (let availableQuantity = computeAvailable s (p_id product);
          r = addToCartUpdater availableQuantity product (cart s)
      in (s\<lparr>cart := fst r\<rparr>, snd r))"

text \<open>
  The \<^verbatim>\<open>map\<close> callback of \<^verbatim>\<open>updateQuantity\<close>: the new line (\<^verbatim>\<open>null\<close> as \<^const>\<open>None\<close>)
  and the alert it raises, if any.
\<close>

definition updateQuantityItem ::
  "int \<Rightarrow> string \<Rightarrow> int \<Rightarrow> CartItem \<Rightarrow> CartItem option \<times> Alert list" where
  "updateQuantityItem availableQuantity pid delta item =
     (if ci_id item = pid then
        (let newQuantity = ci_quantity item + delta
         in if newQuantity \<le> 0 then (None, [])
            else if delta > 0 \<and> newQuantity > availableQuantity
            then (Some item, [InsufficientInventory availableQuantity newQuantity])
            else (Some (item\<lparr>ci_quantity := newQuantity\<rparr>), []))
      else (Some item, []))"

definition updateQuantityUpdater ::
  "int \<Rightarrow> string \<Rightarrow> int \<Rightarrow> CartItem list \<Rightarrow> CartItem list \<times> Alert list" where
  "updateQuantityUpdater availableQuantity pid delta prevCart =
     (List.map_filter (\<lambda>item. fst (updateQuantityItem availableQuantity pid delta item)) prevCart,
      concat (map (\<lambda>item. snd (updateQuantityItem availableQuantity pid delta item)) prevCart))"

definition updateQuantity :: "LedgerState \<Rightarrow> string \<Rightarrow> int \<Rightarrow> LedgerState \<times> Alert list" where
  "updateQuantity s pid delta =
     (let availableQuantity = computeAvailable s pid;
          r = updateQuantityUpdater availableQuantity pid delta (cart s)
      in (s\<lparr>cart := fst r\<rparr>, snd r))"

definition removeFromCart :: "LedgerState \<Rightarrow> string \<Rightarrow> LedgerState" where
  "removeFromCart s pid = s\<lparr>cart := filter (\<lambda>item. ci_id item \<noteq> pid) (cart s)\<rparr>"

definition handleSaveCart :: "LedgerState \<Rightarrow> Clock \<Rightarrow> LedgerState \<times> Alert option" where
  "handleSaveCart s clk =
     (if cart s = [] then (s, Some CartEmpty)
      else case currentCartId s of
             None \<Rightarrow> (s\<lparr>isSaveCartModalOpen := True\<rparr>, None)
           | Some cid \<Rightarrow>
               if cid = [] then (s\<lparr>isSaveCartModalOpen := True\<rparr>, None)
               else (case updateCart (localStorage s) clk cid (cart s) (orUndefined (cartName s)) of
                       (None, storage') \<Rightarrow> (s\<lparr>localStorage := storage'\<rparr>, None)
                     | (Some updated, storage') \<Rightarrow>
                         (s\<lparr>localStorage := storage',
                            savedCarts := getSavedCarts storage',
                            isSaveCartModalOpen := False\<rparr>,
                          Some CartUpdated)))"

definition handleConfirmSaveCart :: "LedgerState \<Rightarrow> Clock \<Rightarrow> LedgerState \<times> Alert option" where
  "handleConfirmSaveCart s clk =
     (if cart s = [] then (s, None)
      else (let r = saveCart (localStorage s) clk (cart s) (orUndefined (cartName s));
                saved = fst r;
                storage' = snd r
            in (s\<lparr>localStorage := storage',
                   savedCarts := getSavedCarts storage',
                   currentCartId := Some (sc_id saved),
                   cartName := [],
                   isSaveCartModalOpen := False\<rparr>,
                Some CartSaved)))"

text \<open>The answer to \<^verbatim>\<open>window.confirm\<close> is a parameter of the handlers that ask.\<close>

definition handleNewCart :: "LedgerState \<Rightarrow> bool \<Rightarrow> LedgerState" where
  "handleNewCart s confirmed =
     (if cart s \<noteq> [] \<and> \<not> confirmed then s
      else s\<lparr>cart := [], currentCartId := None, cartName := []\<rparr>)"

text \<open>The inline handler of the "Clear Cart" button.\<close>

definition clearCart :: "LedgerState \<Rightarrow> LedgerState" where
  "clearCart s = s\<lparr>cart := [], currentCartId := None, cartName := []\<rparr>"

definition handleLoadCart :: "LedgerState \<Rightarrow> SavedCart \<Rightarrow> bool \<Rightarrow> LedgerState" where
  "handleLoadCart s savedCart confirmed =
     (if cart s \<noteq> [] \<and> \<not> truthy (currentCartId s) \<and> \<not> confirmed then s
      else s\<lparr>cart := sc_items savedCart,
             currentCartId := Some (sc_id savedCart),
             cartName := sc_name savedCart,
             isLoadCartModalOpen := False\<rparr>)"

definition handleDeleteCart :: "LedgerState \<Rightarrow> string \<Rightarrow> bool \<Rightarrow> LedgerState" where
  "handleDeleteCart s cartId confirmed =
     (if confirmed then
        (let storage' = snd (deleteCart (localStorage s) cartId);
             s1 = s\<lparr>localStorage := storage', savedCarts := getSavedCarts storage'\<rparr>
         in if currentCartId s = Some cartId
            then s1\<lparr>currentCartId := None, cartName := []\<rparr>
            else s1)
      else s)"

definition handleCheckout :: "LedgerState \<Rightarrow> LedgerState" where
  "handleCheckout s = (if cart s = [] then s else s\<lparr>isCheckoutModalOpen := True\<rparr>)"

text \<open>
  The outcome of the request to \<^verbatim>\<open>/api/orders/checkout\<close>: an exception thrown by
  \<^verbatim>\<open>fetch\<close> or while a body is read (with the message the page shows), a response that
  is not ok with the \<^verbatim>\<open>error\<close> and \<^verbatim>\<open>message\<close> fields of its body, or an ok response.
\<close>

datatype CheckoutResponse =
    Thrown string
  | NotOk "string option" "string option"
  | OkResponse

definition handleConfirmCheckout ::
  "LedgerState \<Rightarrow> CheckoutResponse \<Rightarrow> LedgerState \<times> Alert option" where
  "handleConfirmCheckout s response =
     (if cart s = [] then (s, None)
      else case response of
             Thrown msg \<Rightarrow> (s, Some (CheckoutError msg))
           | NotOk err msg \<Rightarrow>
               (s, Some (CheckoutError (orElse err (orElse msg ''Failed to create order''))))
           | OkResponse \<Rightarrow>
               (let s1 = (if truthy (currentCartId s) then
                            (let storage' = snd (deleteCart (localStorage s)
                                                   (orElse (currentCartId s) []))
                             in s\<lparr>localStorage := storage',
                                  savedCarts := getSavedCarts storage',
                                  currentCartId := None,
                                  cartName := []\<rparr>)
                          else s)
                in (s1\<lparr>cart := [], customerName := [], isCheckoutModalOpen := False\<rparr>,
                    Some (OrderCreated (cartTotal (cart s))))))"

section \<open>Sessions\<close>

text \<open>
  The state of a freshly mounted page: every \<^verbatim>\<open>useState\<close> initial value, with the
  saved carts read from the storage by the mount effect.
\<close>

definition initialState :: "SavedCart list \<Rightarrow> int \<Rightarrow> LedgerState" where
  "initialState storage d =
     \<lparr>cart = [], savedCarts = getSavedCarts storage, currentCartId = None, cartName = [],
      customerName = [], inventory = [], isSaveCartModalOpen = False,
      isLoadCartModalOpen = False, isCheckoutModalOpen = False,
      localStorage = storage, today = d\<rparr>"

text \<open>
  The states a user can bring the page to, starting with an empty storage: every handler
  above, typing into the name fields, a refreshed inventory or clock, and a reload of the
  page. A cart is loaded or deleted from the list the page displays.
\<close>

inductive reachable :: "LedgerState \<Rightarrow> bool" where
  first_visit: "reachable (initialState [] d)"
| reload: "reachable s \<Longrightarrow> reachable (initialState (localStorage s) d)"
| fetched: "reachable s \<Longrightarrow> reachable (s\<lparr>inventory := stock, today := d\<rparr>)"
| typed: "reachable s \<Longrightarrow> reachable (s\<lparr>cartName := n, customerName := m\<rparr>)"
| add: "reachable s \<Longrightarrow> reachable (fst (addToCart s product))"
| adjust: "reachable s \<Longrightarrow> reachable (fst (updateQuantity s pid delta))"
| remove: "reachable s \<Longrightarrow> reachable (removeFromCart s pid)"
| save: "reachable s \<Longrightarrow> reachable (fst (handleSaveCart s clk))"
| confirm_save: "reachable s \<Longrightarrow> reachable (fst (handleConfirmSaveCart s clk))"
| new_cart: "reachable s \<Longrightarrow> reachable (handleNewCart s confirmed)"
| clear: "reachable s \<Longrightarrow> reachable (clearCart s)"
| load: "reachable s \<Longrightarrow> savedCart \<in> set (savedCarts s)
           \<Longrightarrow> reachable (handleLoadCart s savedCart confirmed)"
| delete: "reachable s \<Longrightarrow> reachable (handleDeleteCart s cartId confirmed)"
| checkout: "reachable s \<Longrightarrow> reachable (handleCheckout s)"
| confirm_checkout: "reachable s \<Longrightarrow> reachable (fst (handleConfirmCheckout s response))"

text \<open>A number of successive clicks on the same product, with the alert of each.\<close>

fun addTimes :: "nat \<Rightarrow> Product \<Rightarrow> LedgerState \<Rightarrow> LedgerState \<times> Alert option list" where
  "addTimes 0 product s = (s, [])"
| "addTimes (Suc n) product s =
     (let r = addToCart s product;
          rest = addTimes n product (fst r)
      in (fst rest, snd r # snd rest))"

subsection \<open>The specification's reading of the stored total\<close>

definition specTotal :: "CartItem list \<Rightarrow> int" where
  "specTotal its = sum_list (map (\<lambda>i. ci_price i * ci_quantity i) its)"

subsection \<open>The specification's reading of a cart that was never saved\<close>

text \<open>
  The state to compare with after loading a saved cart \<open>X\<close>: the same lines in the live
  cart, no current cart id, and no entry of \<open>X\<close> among the saved carts.
\<close>

definition neverSaved :: "LedgerState \<Rightarrow> SavedCart \<Rightarrow> LedgerState" where
  "neverSaved s X =
     s\<lparr>cart := sc_items X, currentCartId := None,
       savedCarts := filter (\<lambda>c. sc_id c \<noteq> sc_id X) (savedCarts s)\<rparr>"

section \<open>Example data\<close>

definition productA :: Product where
  "productA = \<lparr>p_id = ''A'', p_name = ''Apple'', p_sku = Some ''SKU-A'',
                p_category = (''c1'', ''Fruit''), p_selling_price = 1500\<rparr>"

definition lineA :: "int \<Rightarrow> CartItem" where
  "lineA q = \<lparr>ci_id = ''A'', ci_sku = ''SKU-A'', ci_name = ''Apple'', ci_price = 1500,
              ci_quantity = q\<rparr>"

definition parked :: "string \<Rightarrow> string \<Rightarrow> CartItem list \<Rightarrow> SavedCart" where
  "parked i n its = \<lparr>sc_id = i, sc_name = n, sc_items = its, sc_total = cartTotal its,
                     sc_createdAt = ''2025-01-01T00:00:00.000Z'',
                     sc_updatedAt = ''2025-01-01T00:00:00.000Z''\<rparr>"

text \<open>A batch of ten units of product A that expires in thirty days.\<close>

definition batchTen :: InventoryItem where
  "batchTen = \<lparr>inv_id = ''i1'', inv_product = productA, inv_quantity = 10,
                inv_expiry_date = 30, inv_location = ''shelf''\<rparr>"

text \<open>Ten sellable units of product A in one batch, and an expired batch of five.\<close>

definition stockTen :: "InventoryItem list" where
  "stockTen =
     [batchTen,
      \<lparr>inv_id = ''i2'', inv_product = productA, inv_quantity = 5, inv_expiry_date = -1,
       inv_location = ''back''\<rparr>]"

text \<open>Scenario 1: ten units in stock, an empty cart, nothing saved.\<close>

definition scenarioState :: LedgerState where
  "scenarioState = (initialState [] 0)\<lparr>inventory := [batchTen]\<rparr>"

text \<open>Two parked carts holding 2 and 3 units; the first is loaded and now holds 4.\<close>

definition parkedState :: LedgerState where
  "parkedState =
     (initialState [parked ''cart-1'' ''Lunch'' [lineA 2], parked ''cart-2'' ''Tea'' [lineA 3]] 0)
       \<lparr>inventory := stockTen, cart := [lineA 4], currentCartId := Some ''cart-1'',
        cartName := ''Lunch''\<rparr>"

text \<open>One parked cart holding 2 units, nothing in the live cart.\<close>

definition soloState :: LedgerState where
  "soloState = (initialState [parked ''cart-1'' ''Lunch'' [lineA 2]] 0)\<lparr>inventory := stockTen\<rparr>"

definition clockNoon :: Clock where
  "clockNoon = \<lparr>nowISO = ''2025-01-02T12:00:00.000Z'', nowMillis = 1735819200000,
               nowLocale = ''02/01/25 12.00''\<rparr>"

text \<open>Scenario 1 after five additions of product A.\<close>

definition halfState :: LedgerState where
  "halfState = scenarioState\<lparr>cart := [lineA 5]\<rparr>"

text \<open>The storage of the parked example, and its first cart with a second line.\<close>

definition parkedStorage :: "SavedCart list" where
  "parkedStorage = localStorage parkedState"

definition lineB :: "int \<Rightarrow> CartItem" where
  "lineB q = \<lparr>ci_id = ''B'', ci_sku = [], ci_name = ''Bread'', ci_price = 4000,
              ci_quantity = q\<rparr>"

text \<open>The first parked cart after an update with a second line and a new name.\<close>

definition updatedLunch :: SavedCart where
  "updatedLunch =
     (parked ''cart-1'' ''Lunch Updated'' [lineA 4, lineB 1])
       \<lparr>sc_updatedAt := ''2025-01-02T12:00:00.000Z''\<rparr>"

text \<open>The parked example after another tab has removed the loaded cart from the storage.\<close>

definition staleState :: LedgerState where
  "staleState = parkedState\<lparr>localStorage := [parked ''cart-2'' ''Tea'' [lineA 3]]\<rparr>"

text \<open>The first parked cart after an update with the name argument absent.\<close>

definition keptLunch :: SavedCart where
  "keptLunch =
     (parked ''cart-1'' ''Lunch'' [lineA 4])\<lparr>sc_updatedAt := ''2025-01-02T12:00:00.000Z''\<rparr>"

text \<open>The first visit after the stock has arrived and product A was clicked once.\<close>

definition firstClick :: LedgerState where
  "firstClick = fst (addToCart ((initialState [] 0)\<lparr>inventory := stockTen, today := 0\<rparr>) productA)"

section \<open>Well-formed carts\<close>

text \<open>
  A cart is well formed when every line has a quantity of at least 1 and no two lines
  are for the same product; a list of saved carts when each holds a well-formed cart
  under a non-empty id.
\<close>

definition cartOk :: "CartItem list \<Rightarrow> bool" where
  "cartOk c = ((\<forall>item\<in>set c. 1 \<le> ci_quantity item) \<and> distinct (map ci_id c))"

definition storedOk :: "SavedCart list \<Rightarrow> bool" where
  "storedOk cs = (\<forall>x\<in>set cs. cartOk (sc_items x) \<and> sc_id x \<noteq> [])"

definition ledgerInv :: "LedgerState \<Rightarrow> bool" where
  "ledgerInv s =
     (cartOk (cart s) \<and> storedOk (savedCarts s) \<and> storedOk (localStorage s)
      \<and> currentCartId s \<noteq> Some [])"

section \<open>Properties of the availability computation\<close>

lemma getOr0_update:
  "getOr0 (AList.update k v m) k' = (if k' = k then v else getOr0 m k')"
  by (simp add: getOr0_def update_conv')

lemma getOr0_Nil: "getOr0 [] k = 0"
  by (simp add: getOr0_def)

lemma reserveItem_get:
  "getOr0 (reserveItem item m) k =
     getOr0 m k + (if ci_id item = k then ci_quantity item else 0)"
  by (simp add: reserveItem_def Let_def getOr0_update)

lemma reserveItem_distinct:
  "distinct (map fst m) \<Longrightarrow> distinct (map fst (reserveItem item m))"
  by (simp add: reserveItem_def Let_def distinct_update)

lemma fold_reserveItem_get:
  "getOr0 (fold reserveItem its m) k = getOr0 m k + reservedQty its k"
  by (induction its arbitrary: m) (simp_all add: reservedQty_def reserveItem_get)

lemma fold_reserveItem_distinct:
  "distinct (map fst m) \<Longrightarrow> distinct (map fst (fold reserveItem its m))"
  by (induction its arbitrary: m) (simp_all add: reserveItem_distinct)

lemma skip_current_iff:
  "cid \<noteq> Some [] \<Longrightarrow> (truthy cid \<and> Some (sc_id c) = cid) = (Some (sc_id c) = cid)"
  by (cases cid) (auto simp: truthy_def)

lemma fold_saved_get:
  "getOr0 (fold (\<lambda>savedCart m. if skip savedCart then m
                                 else fold reserveItem (sc_items savedCart) m) saved m0) k
   = getOr0 m0 k
     + sum_list (map (\<lambda>c. reservedQty (sc_items c) k) (filter (\<lambda>c. \<not> skip c) saved))"
  by (induction saved arbitrary: m0) (simp_all add: fold_reserveItem_get)

lemma fold_saved_distinct:
  "distinct (map fst m0) \<Longrightarrow>
   distinct (map fst (fold (\<lambda>savedCart m. if skip savedCart then m
                                 else fold reserveItem (sc_items savedCart) m) saved m0))"
  by (induction saved arbitrary: m0) (simp_all add: fold_reserveItem_distinct)

lemma reservedQuantities_distinct:
  "distinct (map fst (reservedQuantities saved live cid))"
  by (simp add: reservedQuantities_def Let_def fold_reserveItem_distinct fold_saved_distinct)

lemma reservedQuantities_get:
  "cid \<noteq> Some [] \<Longrightarrow>
   getOr0 (reservedQuantities saved live cid) k
     = otherCartsReserved saved cid k + reservedQty live k"
  by (simp add: reservedQuantities_def Let_def fold_reserveItem_get fold_saved_get
        getOr0_Nil otherCartsReserved_def skip_current_iff)

lemma fold_stock_get:
  "getOr0 (fold (\<lambda>item quantityMap.
             let productId = p_id (inv_product item);
                 currentQuantity = getOr0 quantityMap productId
             in AList.update productId (currentQuantity + inv_quantity item) quantityMap) xs m) k
   = getOr0 m k + sum_list (map inv_quantity (filter (\<lambda>r. p_id (inv_product r) = k) xs))"
  by (induction xs arbitrary: m) (simp_all add: Let_def getOr0_update)

lemma totalInventoryQuantity_get:
  "getOr0 (totalInventoryQuantity d stock) k = totalSellableStock d stock k"
  unfolding totalInventoryQuantity_def totalSellableStock_def fold_stock_get getOr0_Nil
  by (simp add: Let_def conj_commute conj_left_commute cong: conj_cong)

lemma totalSellableStock_nonneg: "0 \<le> totalSellableStock d stock k"
  unfolding totalSellableStock_def by (rule sum_list_nonneg) auto

text \<open>
  Subtracting a reserved map with distinct keys touches each product once: a product
  without an entry keeps its total, a product with an entry gets the clamped difference.
\<close>

lemma productInventoryQuantity_get:
  "distinct (map fst r) \<Longrightarrow>
   getOr0 (productInventoryQuantity m r) k
     = (case map_of r k of None \<Rightarrow> getOr0 m k | Some q \<Rightarrow> max 0 (getOr0 m k - q))"
  unfolding productInventoryQuantity_def
proof (induction r arbitrary: m)
  case Nil
  then show ?case by simp
next
  case (Cons e r)
  obtain k' q where e: "e = (k', q)" by (cases e)
  from Cons.prems e have d: "distinct (map fst r)" and nk: "k' \<notin> fst ` set r" by auto
  have none: "k = k' \<Longrightarrow> map_of r k = None"
    using nk by (simp add: map_of_eq_None_iff)
  show ?case
    using Cons.IH [OF d] none
    by (cases "k = k'") (simp_all add: e Let_def getOr0_update split: option.splits)
qed

lemma computeAvailable_eq:
  assumes "currentCartId s \<noteq> Some []"
  shows "computeAvailable s P = specAvailable s P"
proof -
  let ?r = "stateReserved s"
  have g: "getOr0 ?r P
             = otherCartsReserved (savedCarts s) (currentCartId s) P + reservedQty (cart s) P"
    unfolding stateReserved_def by (rule reservedQuantities_get [OF assms])
  have d: "distinct (map fst ?r)"
    unfolding stateReserved_def by (rule reservedQuantities_distinct)
  have t: "getOr0 (stateTotal s) P = totalSellableStock (today s) (inventory s) P"
    unfolding stateTotal_def by (rule totalInventoryQuantity_get)
  show ?thesis
    unfolding computeAvailable_def stateAvailable_def productInventoryQuantity_get [OF d] t
    using g totalSellableStock_nonneg [of "today s" "inventory s" P]
    by (auto simp: specAvailable_def getOr0_def split: option.splits)
qed

section \<open>C1: the available quantity\<close>

text \<open>
  Claim C1. For every product \<open>P\<close> and every state of the ledger whose current cart id is
  either unset or a proper (non-empty) id, the available quantity the page computes is
  \<open>max 0\<close> of the sellable stock of \<open>P\<close> (quantities of the batches of \<open>P\<close> with positive
  quantity and status valid or near-expiry; expired batches never count) minus the
  quantities of \<open>P\<close> in all saved carts other than the one whose id is the current cart
  id, minus the quantity of \<open>P\<close> in the live cart. In particular it is never negative.
  Cart ids are generated as \<^verbatim>\<open>cart-<timestamp>\<close>, so the empty id never occurs.
\<close>

theorem available_quantity_formula:
  assumes "currentCartId s \<noteq> Some []"
  shows "computeAvailable s P
           = max 0 (totalSellableStock (today s) (inventory s) P
                    - otherCartsReserved (savedCarts s) (currentCartId s) P
                    - reservedQty (cart s) P)
         \<and> 0 \<le> computeAvailable s P"
  using computeAvailable_eq [OF assms, of P] by (simp add: specAvailable_def)

lemmas example_defs =
  parkedState_def soloState_def scenarioState_def initialState_def getSavedCarts_def
  parked_def lineA_def stockTen_def batchTen_def productA_def clockNoon_def

theorem available_quantity_formula_witness:
  "currentCartId parkedState \<noteq> Some []
   \<and> totalSellableStock (today parkedState) (inventory parkedState) ''A'' = 10
   \<and> otherCartsReserved (savedCarts parkedState) (currentCartId parkedState) ''A'' = 3
   \<and> reservedQty (cart parkedState) ''A'' = 4
   \<and> computeAvailable parkedState ''A'' = 3"
proof -
  have h: "currentCartId parkedState \<noteq> Some []" by (simp add: example_defs)
  have t: "totalSellableStock (today parkedState) (inventory parkedState) ''A'' = 10"
    by (simp add: example_defs totalSellableStock_def getExpiryStatus_def)
  have r: "otherCartsReserved (savedCarts parkedState) (currentCartId parkedState) ''A'' = 3"
    by (simp add: example_defs otherCartsReserved_def reservedQty_def)
  have q: "reservedQty (cart parkedState) ''A'' = 4"
    by (simp add: example_defs reservedQty_def)
  show ?thesis using available_quantity_formula [OF h, of "''A''"] h t r q by simp
qed

section \<open>C2: loading a saved cart does not count it twice\<close>

lemma otherCartsReserved_filter:
  "otherCartsReserved (filter (\<lambda>c. sc_id c \<noteq> i) saved) None P
     = otherCartsReserved saved (Some i) P"
  by (simp add: otherCartsReserved_def cong: conj_cong)

lemma otherCartsReserved_zero:
  "\<forall>c\<in>set saved. Some (sc_id c) \<noteq> cid \<longrightarrow> reservedQty (sc_items c) P = 0
   \<Longrightarrow> otherCartsReserved saved cid P = 0"
  unfolding otherCartsReserved_def by (induction saved) auto

text \<open>
  Claim C2. For every saved cart \<open>X\<close> (with a proper id) that the page loads, the
  available quantity of every product computed right after \<^verbatim>\<open>handleLoadCart\<close> equals the
  one computed in the state where \<open>X\<close> was never saved and its lines sit in the live cart:
  the saved entry with the current cart id is left out of the subtraction and the live
  cart is counted in its place. For a product reserved by no other saved cart this is
  the sellable stock minus the quantity in \<open>X\<close>, subtracted once, floored at 0.
  The load takes place when the live cart is empty, or belongs to a saved cart, or the
  user confirms.
\<close>

theorem load_counts_reservation_once:
  assumes "X \<in> set (savedCarts s)" and "sc_id X \<noteq> []"
    and "cart s = [] \<or> truthy (currentCartId s) \<or> confirmed"
  shows "computeAvailable (handleLoadCart s X confirmed) P = computeAvailable (neverSaved s X) P
         \<and> ((\<forall>c\<in>set (savedCarts s). sc_id c \<noteq> sc_id X \<longrightarrow> reservedQty (sc_items c) P = 0)
              \<longrightarrow> computeAvailable (handleLoadCart s X confirmed) P
                    = max 0 (totalSellableStock (today s) (inventory s) P
                             - reservedQty (sc_items X) P))"
proof -
  let ?s' = "handleLoadCart s X confirmed"
  have s': "?s' = s\<lparr>cart := sc_items X, currentCartId := Some (sc_id X),
                     cartName := sc_name X, isLoadCartModalOpen := False\<rparr>"
    using assms(3) by (auto simp: handleLoadCart_def)
  have a: "computeAvailable ?s' P = specAvailable ?s' P"
    by (rule computeAvailable_eq) (simp add: s' assms(2))
  have b: "computeAvailable (neverSaved s X) P = specAvailable (neverSaved s X) P"
    by (rule computeAvailable_eq) (simp add: neverSaved_def)
  have c: "specAvailable ?s' P = specAvailable (neverSaved s X) P"
    by (simp add: s' specAvailable_def neverSaved_def otherCartsReserved_filter)
  have d: "(\<forall>c\<in>set (savedCarts s). sc_id c \<noteq> sc_id X \<longrightarrow> reservedQty (sc_items c) P = 0)
           \<Longrightarrow> specAvailable ?s' P = max 0 (totalSellableStock (today s) (inventory s) P
                             - reservedQty (sc_items X) P)"
    by (simp add: s' specAvailable_def otherCartsReserved_zero)
  show ?thesis using a b c d by simp
qed

theorem load_counts_reservation_once_witness:
  "parked ''cart-1'' ''Lunch'' [lineA 2] \<in> set (savedCarts soloState)
   \<and> sc_id (parked ''cart-1'' ''Lunch'' [lineA 2]) \<noteq> []
   \<and> cart soloState = []
   \<and> savedCarts soloState = [parked ''cart-1'' ''Lunch'' [lineA 2]]
   \<and> computeAvailable (neverSaved soloState (parked ''cart-1'' ''Lunch'' [lineA 2])) ''A'' = 8
   \<and> computeAvailable (handleLoadCart soloState (parked ''cart-1'' ''Lunch'' [lineA 2]) False)
         ''A'' = 8"
proof -
  let ?X = "parked ''cart-1'' ''Lunch'' [lineA 2]"
  have m: "?X \<in> set (savedCarts soloState)" by (simp add: example_defs)
  have i: "sc_id ?X \<noteq> []" by (simp add: example_defs)
  have e: "cart soloState = []" by (simp add: example_defs)
  have o: "\<forall>c\<in>set (savedCarts soloState).
             sc_id c \<noteq> sc_id ?X \<longrightarrow> reservedQty (sc_items c) ''A'' = 0"
    by (simp add: example_defs)
  have t: "totalSellableStock (today soloState) (inventory soloState) ''A'' = 10"
    by (simp add: example_defs totalSellableStock_def getExpiryStatus_def)
  have q: "reservedQty (sc_items ?X) ''A'' = 2"
    by (simp add: example_defs reservedQty_def)
  from e have e': "cart soloState = [] \<or> truthy (currentCartId soloState) \<or> False" by simp
  show ?thesis
    using load_counts_reservation_once [OF m i e', of "''A''"] m i e o t q
    by (simp add: example_defs)
qed

section \<open>C3: scenario 1, adding the same product again and again\<close>

text \<open>
  Claim C3 expects ten successful additions on ten units of stock and a rejection of the
  eleventh. The page compares the new quantity of the line with the available quantity,
  from which the live cart's own lines are already subtracted: on ten units the first
  five clicks succeed, and the sixth and every later click is rejected, reporting
  5 available and 6 requested, with the line left at quantity 5.
\<close>

theorem eleven_adds_on_ten_units:
  "snd (addTimes 11 productA scenarioState)
     = replicate 5 None @ replicate 6 (Some (InsufficientInventory 5 6))
   \<and> cart (fst (addTimes 11 productA scenarioState)) = [lineA 5]
   \<and> totalSellableStock (today scenarioState) (inventory scenarioState) ''A'' = 10"
  by code_simp

section \<open>C4: a rejected operation changes nothing\<close>

lemma addToCart_rejected:
  "snd (addToCart s product) \<noteq> None \<Longrightarrow> fst (addToCart s product) = s"
  by (auto simp: addToCart_def addToCartUpdater_def Let_def split: if_splits option.splits)

lemma map_filter_Some_id:
  "(\<And>x. x \<in> set xs \<Longrightarrow> f x = Some x) \<Longrightarrow> List.map_filter f xs = xs"
  by (induction xs) simp_all

lemma same_id_same_line:
  "distinct (map ci_id c) \<Longrightarrow> x \<in> set c \<Longrightarrow> y \<in> set c \<Longrightarrow> ci_id x = ci_id y \<Longrightarrow> x = y"
  by (meson distinct_map inj_onD)

lemma updateQuantityUpdater_rejected:
  assumes d: "distinct (map ci_id c)"
    and r: "snd (updateQuantityUpdater a pid delta c) \<noteq> []"
  shows "fst (updateQuantityUpdater a pid delta c) = c"
proof -
  from r obtain x where x: "x \<in> set c" and ax: "snd (updateQuantityItem a pid delta x) \<noteq> []"
    by (auto simp: updateQuantityUpdater_def)
  from ax have xid: "ci_id x = pid" and keep: "fst (updateQuantityItem a pid delta x) = Some x"
    by (auto simp: updateQuantityItem_def Let_def split: if_splits)
  have "fst (updateQuantityItem a pid delta y) = Some y" if y: "y \<in> set c" for y
  proof (cases "ci_id y = pid")
    case True
    with xid have "y = x" using same_id_same_line [OF d y x] by simp
    with keep show ?thesis by simp
  next
    case False
    then show ?thesis by (simp add: updateQuantityItem_def)
  qed
  then show ?thesis
    by (simp add: updateQuantityUpdater_def map_filter_Some_id)
qed

lemma updateQuantity_rejected:
  "distinct (map ci_id (cart s)) \<Longrightarrow> snd (updateQuantity s pid delta) \<noteq> []
     \<Longrightarrow> fst (updateQuantity s pid delta) = s"
  by (simp add: updateQuantity_def Let_def updateQuantityUpdater_rejected)

lemma handleConfirmCheckout_failed:
  "response \<noteq> OkResponse \<Longrightarrow> fst (handleConfirmCheckout s response) = s"
  by (cases response) (simp_all add: handleConfirmCheckout_def)

text \<open>
  Claim C4. Whenever an operation is rejected, the whole page state (live cart, saved
  carts, current cart id and the storage with them) is what it was before the call:
  \<^item> \<^verbatim>\<open>addToCart\<close> that raises the insufficient-inventory alert;
  \<^item> \<^verbatim>\<open>updateQuantity\<close> that raises it, on a cart with one line per product;
  \<^item> saving or checking out an empty cart;
  \<^item> a checkout whose request throws or is answered with a response that is not ok.
\<close>

theorem reject_without_mutation:
  "(snd (addToCart s product) \<noteq> None \<longrightarrow> fst (addToCart s product) = s)
   \<and> (distinct (map ci_id (cart s)) \<and> snd (updateQuantity s pid delta) \<noteq> []
        \<longrightarrow> fst (updateQuantity s pid delta) = s)
   \<and> (cart s = [] \<longrightarrow>
         handleSaveCart s clk = (s, Some CartEmpty)
         \<and> handleConfirmSaveCart s clk = (s, None)
         \<and> handleCheckout s = s
         \<and> handleConfirmCheckout s response = (s, None))
   \<and> (response \<noteq> OkResponse \<longrightarrow> fst (handleConfirmCheckout s response) = s)"
  using addToCart_rejected [of s product] updateQuantity_rejected [of s pid delta]
    handleConfirmCheckout_failed [of response s]
  by (simp add: handleSaveCart_def handleConfirmSaveCart_def handleCheckout_def
        handleConfirmCheckout_def)

theorem reject_without_mutation_witness:
  "snd (addToCart halfState productA) = Some (InsufficientInventory 5 6)
   \<and> fst (addToCart halfState productA) = halfState
   \<and> distinct (map ci_id (cart halfState))
   \<and> snd (updateQuantity halfState ''A'' 1) = [InsufficientInventory 5 6]
   \<and> fst (updateQuantity halfState ''A'' 1) = halfState
   \<and> cart scenarioState = []
   \<and> handleSaveCart scenarioState clockNoon = (scenarioState, Some CartEmpty)
   \<and> handleConfirmCheckout scenarioState OkResponse = (scenarioState, None)
   \<and> Thrown ''Failed to fetch'' \<noteq> OkResponse
   \<and> handleConfirmCheckout halfState (Thrown ''Failed to fetch'')
       = (halfState, Some (CheckoutError ''Failed to fetch''))"
proof -
  have a: "snd (addToCart halfState productA) = Some (InsufficientInventory 5 6)"
    by code_simp
  have u: "snd (updateQuantity halfState ''A'' 1) = [InsufficientInventory 5 6]"
    by code_simp
  have d: "distinct (map ci_id (cart halfState))"
    by (simp add: halfState_def)
  have e: "cart scenarioState = []" by (simp add: example_defs)
  have n: "cart halfState \<noteq> []" by (simp add: halfState_def)
  have c: "snd (handleConfirmCheckout halfState (Thrown ''Failed to fetch''))
             = Some (CheckoutError ''Failed to fetch'')"
    using n by (simp add: handleConfirmCheckout_def)
  show ?thesis
    using reject_without_mutation
            [of halfState productA "''A''" 1 clockNoon "Thrown ''Failed to fetch''"]
      reject_without_mutation [of scenarioState productA "''A''" 1 clockNoon OkResponse]
      a u d e c
    by (simp add: prod_eq_iff)
qed

section \<open>C5: a successful checkout releases the saved cart\<close>

lemma deleteCart_removes: "cartId \<notin> sc_id ` set (snd (deleteCart storage cartId))"
  by (auto simp: deleteCart_def getSavedCarts_def)

text \<open>
  Claim C5. After a checkout that the backend accepts, made on a non-empty cart while
  the current cart id is \<open>X\<close> (a proper id), neither the saved carts of the page nor the
  storage hold an entry with id \<open>X\<close>, the live cart is empty and the current cart id is
  cleared.
\<close>

theorem checkout_releases_saved_cart:
  assumes "cart s \<noteq> []" and "currentCartId s = Some X" and "X \<noteq> []"
  shows "X \<notin> sc_id ` set (savedCarts (fst (handleConfirmCheckout s OkResponse)))
         \<and> X \<notin> sc_id ` set (localStorage (fst (handleConfirmCheckout s OkResponse)))
         \<and> cart (fst (handleConfirmCheckout s OkResponse)) = []
         \<and> currentCartId (fst (handleConfirmCheckout s OkResponse)) = None"
  using assms deleteCart_removes [of X "localStorage s"]
  by (simp add: handleConfirmCheckout_def truthy_def orElse_def Let_def getSavedCarts_def)

theorem checkout_releases_saved_cart_witness:
  "cart parkedState \<noteq> [] \<and> currentCartId parkedState = Some ''cart-1'' \<and> ''cart-1'' \<noteq> []
   \<and> ''cart-1'' \<in> sc_id ` set (savedCarts parkedState)
   \<and> ''cart-1'' \<notin> sc_id ` set (savedCarts (fst (handleConfirmCheckout parkedState OkResponse)))
   \<and> ''cart-1'' \<notin> sc_id ` set (localStorage (fst (handleConfirmCheckout parkedState OkResponse)))
   \<and> cart (fst (handleConfirmCheckout parkedState OkResponse)) = []
   \<and> currentCartId (fst (handleConfirmCheckout parkedState OkResponse)) = None"
proof -
  have a: "cart parkedState \<noteq> []" by (simp add: example_defs)
  have b: "currentCartId parkedState = Some ''cart-1''" by (simp add: example_defs)
  have c: "''cart-1'' \<noteq> []" by simp
  have d: "''cart-1'' \<in> sc_id ` set (savedCarts parkedState)" by (simp add: example_defs)
  show ?thesis using checkout_releases_saved_cart [OF a b c] a b d by simp
qed

section \<open>C6: deleting the cart that is loaded\<close>

text \<open>
  Claim C6 says that deleting the saved cart whose id is the current cart id also empties
  the live cart. \<^verbatim>\<open>handleDeleteCart\<close> resets the current cart id and the cart name only:
  with cart-1 loaded and holding 4 units, the lines are still there after the deletion.
\<close>

theorem delete_current_cart_counterexample:
  "currentCartId parkedState = Some ''cart-1''
   \<and> cart (handleDeleteCart parkedState ''cart-1'' True) = [lineA 4]"
  by (simp add: example_defs handleDeleteCart_def Let_def)

text \<open>
  Claim C6 as amended. When the user confirms the deletion of the saved cart whose id is
  the current cart id, afterwards no saved cart with that id is left on the page or in
  the storage, the current cart id is cleared and the cart name is reset, and the lines
  of the live cart are what they were.
\<close>

theorem delete_current_cart_keeps_lines:
  assumes "currentCartId s = Some cartId"
  shows "cartId \<notin> sc_id ` set (savedCarts (handleDeleteCart s cartId True))
         \<and> cartId \<notin> sc_id ` set (localStorage (handleDeleteCart s cartId True))
         \<and> currentCartId (handleDeleteCart s cartId True) = None
         \<and> cartName (handleDeleteCart s cartId True) = []
         \<and> cart (handleDeleteCart s cartId True) = cart s"
  using assms deleteCart_removes [of cartId "localStorage s"]
  by (simp add: handleDeleteCart_def Let_def getSavedCarts_def)

theorem delete_current_cart_keeps_lines_witness:
  "currentCartId parkedState = Some ''cart-1''
   \<and> ''cart-1'' \<in> sc_id ` set (savedCarts parkedState)
   \<and> ''cart-1'' \<notin> sc_id ` set (savedCarts (handleDeleteCart parkedState ''cart-1'' True))
   \<and> ''cart-1'' \<notin> sc_id ` set (localStorage (handleDeleteCart parkedState ''cart-1'' True))
   \<and> currentCartId (handleDeleteCart parkedState ''cart-1'' True) = None
   \<and> cartName (handleDeleteCart parkedState ''cart-1'' True) = []
   \<and> cart (handleDeleteCart parkedState ''cart-1'' True) = cart parkedState"
proof -
  have b: "currentCartId parkedState = Some ''cart-1''" by (simp add: example_defs)
  have d: "''cart-1'' \<in> sc_id ` set (savedCarts parkedState)" by (simp add: example_defs)
  show ?thesis using delete_current_cart_keeps_lines [OF b] b d by simp
qed

section \<open>C7: the stored total\<close>

lemma foldl_add_sum:
  "foldl (\<lambda>sum item. sum + f item) a xs = a + sum_list (map f xs)"
  for a :: int
  by (induction xs arbitrary: a) simp_all

lemma cartTotal_specTotal: "cartTotal c = specTotal c"
  by (simp add: cartTotal_def specTotal_def foldl_add_sum)

lemma findIndex_None: "findIndex p xs = None \<longleftrightarrow> (\<forall>x\<in>set xs. \<not> p x)"
  by (induction xs) auto

lemma findIndex_Some:
  "findIndex p xs = Some i \<Longrightarrow> i < length xs \<and> p (xs ! i) \<and> find p xs = Some (xs ! i)"
  by (induction xs arbitrary: i) (auto split: if_splits)

text \<open>What a successful \<^verbatim>\<open>updateCart\<close> returns and stores.\<close>

lemma updateCart_Some:
  assumes "updateCart storage clk cartId c name = (Some u, storage')"
  shows "\<exists>i old. findIndex (\<lambda>x. sc_id x = cartId) storage = Some i \<and> i < length storage
           \<and> old = storage ! i \<and> find (\<lambda>x. sc_id x = cartId) storage = Some old
           \<and> u = old\<lparr>sc_items := c, sc_total := cartTotal c, sc_updatedAt := nowISO clk,
                     sc_name := (if name = None \<or> name = Some [] then sc_name old
                                 else the name)\<rparr>
           \<and> storage' = storage[i := u]"
proof -
  from assms obtain i where i: "findIndex (\<lambda>x. sc_id x = cartId) storage = Some i"
    by (auto simp: updateCart_def Let_def getSavedCarts_def split: option.splits)
  note fi = findIndex_Some [OF i]
  let ?spread = "(storage ! i)\<lparr>sc_items := c, sc_total := cartTotal c,
                                 sc_updatedAt := nowISO clk\<rparr>"
  from assms i have u: "u = (case name of None \<Rightarrow> ?spread
       | Some n \<Rightarrow> if n = [] then ?spread else ?spread\<lparr>sc_name := n\<rparr>)"
    and s: "storage' = storage[i := u]"
    by (auto simp: updateCart_def Let_def getSavedCarts_def)
  have "u = (storage ! i)\<lparr>sc_items := c, sc_total := cartTotal c, sc_updatedAt := nowISO clk,
              sc_name := (if name = None \<or> name = Some [] then sc_name (storage ! i)
                          else the name)\<rparr>"
    unfolding u by (cases name) simp_all
  with i fi s show ?thesis by blast
qed

text \<open>
  Claim C7. The cart that \<^verbatim>\<open>saveCart\<close> returns and puts at the front of the storage, and
  the cart that a successful \<^verbatim>\<open>updateCart\<close> returns and writes into the storage, hold
  the lines that were passed in and a total equal to the sum of price times quantity over
  these stored lines: the total is computed from the lines being saved.
\<close>

theorem stored_total_is_recomputed:
  "sc_items (fst (saveCart storage clk c name)) = c
   \<and> sc_total (fst (saveCart storage clk c name))
       = specTotal (sc_items (fst (saveCart storage clk c name)))
   \<and> hd (snd (saveCart storage clk c name)) = fst (saveCart storage clk c name)
   \<and> (updateCart storage clk cartId c name = (Some u, storage')
        \<longrightarrow> sc_items u = c \<and> sc_total u = specTotal (sc_items u) \<and> u \<in> set storage')"
proof -
  have "sc_items u = c \<and> sc_total u = specTotal (sc_items u) \<and> u \<in> set storage'"
    if "updateCart storage clk cartId c name = (Some u, storage')"
  proof -
    from updateCart_Some [OF that] obtain i old where
      "i < length storage" and
      "u = old\<lparr>sc_items := c, sc_total := cartTotal c, sc_updatedAt := nowISO clk,
               sc_name := (if name = None \<or> name = Some [] then sc_name old else the name)\<rparr>"
      and "storage' = storage[i := u]" by blast
    then show ?thesis by (simp add: cartTotal_specTotal set_update_memI)
  qed
  then show ?thesis
    by (simp add: saveCart_def Let_def cartTotal_specTotal)
qed

theorem stored_total_is_recomputed_witness:
  "updateCart parkedStorage clockNoon ''cart-1'' [lineA 4, lineB 1] (Some ''Lunch Updated'')
     = (Some updatedLunch, [updatedLunch, parked ''cart-2'' ''Tea'' [lineA 3]])
   \<and> sc_items updatedLunch = [lineA 4, lineB 1]
   \<and> specTotal (sc_items updatedLunch) = 10000
   \<and> sc_total updatedLunch = 10000"
proof -
  have r: "updateCart parkedStorage clockNoon ''cart-1'' [lineA 4, lineB 1]
             (Some ''Lunch Updated'')
           = (Some updatedLunch, [updatedLunch, parked ''cart-2'' ''Tea'' [lineA 3]])"
    by (simp add: updateCart_def parkedStorage_def updatedLunch_def example_defs lineB_def
          cartTotal_def Let_def)
  have t: "specTotal [lineA 4, lineB 1] = 10000"
    by (simp add: specTotal_def lineA_def lineB_def)
  show ?thesis
    using stored_total_is_recomputed
            [of parkedStorage clockNoon "[lineA 4, lineB 1]" "Some ''Lunch Updated''"
                "''cart-1''" updatedLunch "[updatedLunch, parked ''cart-2'' ''Tea'' [lineA 3]]"]
          r t
    by simp
qed

section \<open>C9: updating a cart that is no longer stored\<close>

lemma updateCart_missing:
  "cartId \<notin> sc_id ` set storage \<Longrightarrow> updateCart storage clk cartId c name = (None, storage)"
proof -
  assume "cartId \<notin> sc_id ` set storage"
  then have "findIndex (\<lambda>x. sc_id x = cartId) storage = None"
    by (auto simp: findIndex_None)
  then show ?thesis by (simp add: updateCart_def Let_def getSavedCarts_def)
qed

text \<open>
  Claim C9. For a cart id that no stored cart has, \<^verbatim>\<open>updateCart\<close> returns \<^verbatim>\<open>null\<close> and
  the storage keeps its content. So pressing save on a non-empty cart whose current cart
  id (a proper id) is no longer in the storage does nothing: the state of the page and
  the storage are unchanged and no alert is raised.
\<close>

theorem update_of_missing_cart_is_silent:
  "(cartId \<notin> sc_id ` set storage \<longrightarrow> updateCart storage clk cartId c name = (None, storage))
   \<and> (cart s \<noteq> [] \<and> currentCartId s = Some cartId \<and> cartId \<noteq> []
        \<and> cartId \<notin> sc_id ` set (localStorage s)
       \<longrightarrow> handleSaveCart s clk = (s, None))"
  using updateCart_missing [of cartId storage clk c name]
    updateCart_missing [of cartId "localStorage s" clk "cart s" "orUndefined (cartName s)"]
  by (auto simp: handleSaveCart_def)

theorem update_of_missing_cart_is_silent_witness:
  "''cart-1'' \<notin> sc_id ` set (localStorage staleState)
   \<and> updateCart (localStorage staleState) clockNoon ''cart-1'' (cart staleState) (Some ''Lunch'')
       = (None, localStorage staleState)
   \<and> cart staleState \<noteq> [] \<and> currentCartId staleState = Some ''cart-1'' \<and> ''cart-1'' \<noteq> []
   \<and> handleSaveCart staleState clockNoon = (staleState, None)"
proof -
  have a: "''cart-1'' \<notin> sc_id ` set (localStorage staleState)"
    by (simp add: staleState_def example_defs)
  have b: "cart staleState \<noteq> []" by (simp add: staleState_def example_defs)
  have c: "currentCartId staleState = Some ''cart-1''" by (simp add: staleState_def example_defs)
  show ?thesis
    using update_of_missing_cart_is_silent
            [of "''cart-1''" "localStorage staleState" clockNoon "cart staleState"
                "Some ''Lunch''" staleState]
          a b c
    by simp
qed

section \<open>C10: names of saved carts\<close>

lemma orElse_nonempty: "b \<noteq> [] \<Longrightarrow> orElse a b \<noteq> []"
  by (simp add: orElse_def split: option.splits)

lemma saveCart_name: "sc_name (fst (saveCart storage clk c name)) \<noteq> []"
  by (simp add: saveCart_def Let_def orElse_nonempty)

lemma saveCart_names:
  "\<forall>x\<in>set storage. sc_name x \<noteq> [] \<Longrightarrow>
   \<forall>x\<in>set (snd (saveCart storage clk c name)). sc_name x \<noteq> []"
  by (simp add: saveCart_def Let_def orElse_nonempty getSavedCarts_def)

lemma updateCart_name:
  assumes "updateCart storage clk cartId c name = (Some u, storage')"
    and "find (\<lambda>x. sc_id x = cartId) storage = Some old"
  shows "sc_name u = (if name = None \<or> name = Some [] then sc_name old else the name)"
proof -
  from updateCart_Some [OF assms(1)] obtain old' where
    "find (\<lambda>x. sc_id x = cartId) storage = Some old'" and
    "u = old'\<lparr>sc_items := c, sc_total := cartTotal c, sc_updatedAt := nowISO clk,
               sc_name := (if name = None \<or> name = Some [] then sc_name old' else the name)\<rparr>"
    by blast
  with assms(2) show ?thesis by simp
qed

lemma handleSaveCart_storage:
  "localStorage (fst (handleSaveCart s clk)) = localStorage s
   \<or> (\<exists>cid. localStorage (fst (handleSaveCart s clk))
         = snd (updateCart (localStorage s) clk cid (cart s) (orUndefined (cartName s))))"
proof (cases "currentCartId s")
  case None
  then show ?thesis by (simp add: handleSaveCart_def)
next
  case (Some cid)
  obtain r st where u: "updateCart (localStorage s) clk cid (cart s) (orUndefined (cartName s))
                          = (r, st)"
    by (cases "updateCart (localStorage s) clk cid (cart s) (orUndefined (cartName s))")
  have "cart s \<noteq> [] \<Longrightarrow> cid \<noteq> [] \<Longrightarrow> localStorage (fst (handleSaveCart s clk)) = st"
    using Some u by (cases r) (simp_all add: handleSaveCart_def)
  moreover have "cart s = [] \<or> cid = [] \<Longrightarrow> localStorage (fst (handleSaveCart s clk)) = localStorage s"
    using Some by (auto simp: handleSaveCart_def)
  ultimately show ?thesis using u by (metis snd_conv)
qed

lemma updateCart_names:
  assumes "\<forall>x\<in>set storage. sc_name x \<noteq> []"
  shows "\<forall>x\<in>set (snd (updateCart storage clk cartId c name)). sc_name x \<noteq> []"
proof (cases "fst (updateCart storage clk cartId c name)")
  case None
  then have "snd (updateCart storage clk cartId c name) = storage"
    by (auto simp: updateCart_def Let_def split: option.splits)
  with assms show ?thesis by simp
next
  case (Some u)
  then have "updateCart storage clk cartId c name
               = (Some u, snd (updateCart storage clk cartId c name))"
    by (simp add: prod_eq_iff)
  from updateCart_Some [OF this] obtain i old where
    i: "i < length storage" and old: "old = storage ! i" and
    u: "u = old\<lparr>sc_items := c, sc_total := cartTotal c, sc_updatedAt := nowISO clk,
               sc_name := (if name = None \<or> name = Some [] then sc_name old else the name)\<rparr>"
    and s: "snd (updateCart storage clk cartId c name) = storage[i := u]" by blast
  from i old assms have "sc_name old \<noteq> []" by simp
  with u have "sc_name u \<noteq> []" by (cases name) auto
  with assms show ?thesis
    unfolding s by (auto dest!: set_update_subset_insert [THEN subsetD])
qed

text \<open>
  Claim C10. The name of a saved cart is only ever replaced by a non-empty string.
  \<^verbatim>\<open>saveCart\<close> always stores a non-empty name, the generated default
  \<^verbatim>\<open>Cart <date and time>\<close> when no name is given. \<^verbatim>\<open>updateCart\<close> called with the name
  absent or empty keeps the stored name; a name that differs afterwards is the non-empty
  name that was passed. So if every stored cart has a non-empty name before
  \<^verbatim>\<open>saveCart\<close>, \<^verbatim>\<open>updateCart\<close> or the page's two save handlers, every stored cart has
  one after.
\<close>

theorem saved_cart_name_never_emptied:
  "sc_name (fst (saveCart storage clk c name)) \<noteq> []
   \<and> sc_name (fst (saveCart storage clk c None)) = ''Cart '' @ nowLocale clk
   \<and> (updateCart storage clk cartId c name = (Some u, storage')
        \<and> find (\<lambda>x. sc_id x = cartId) storage = Some old
      \<longrightarrow> (name = None \<or> name = Some [] \<longrightarrow> sc_name u = sc_name old)
          \<and> (sc_name u \<noteq> sc_name old \<longrightarrow> sc_name u \<noteq> [] \<and> name = Some (sc_name u))
          \<and> (sc_name old \<noteq> [] \<longrightarrow> sc_name u \<noteq> []))
   \<and> ((\<forall>x\<in>set storage. sc_name x \<noteq> [])
      \<longrightarrow> (\<forall>x\<in>set (snd (saveCart storage clk c name)). sc_name x \<noteq> [])
          \<and> (\<forall>x\<in>set (snd (updateCart storage clk cartId c name)). sc_name x \<noteq> []))
   \<and> ((\<forall>x\<in>set (localStorage s). sc_name x \<noteq> [])
      \<longrightarrow> (\<forall>x\<in>set (localStorage (fst (handleSaveCart s clk))). sc_name x \<noteq> [])
          \<and> (\<forall>x\<in>set (localStorage (fst (handleConfirmSaveCart s clk))). sc_name x \<noteq> []))"
proof -
  have a: "sc_name (fst (saveCart storage clk c None)) = ''Cart '' @ nowLocale clk"
    by (simp add: saveCart_def Let_def orElse_def)
  have b: "(name = None \<or> name = Some [] \<longrightarrow> sc_name u = sc_name old)
          \<and> (sc_name u \<noteq> sc_name old \<longrightarrow> sc_name u \<noteq> [] \<and> name = Some (sc_name u))
          \<and> (sc_name old \<noteq> [] \<longrightarrow> sc_name u \<noteq> [])"
    if "updateCart storage clk cartId c name = (Some u, storage')"
      and "find (\<lambda>x. sc_id x = cartId) storage = Some old"
    using updateCart_name [OF that] by (cases name) (auto split: if_splits)
  have c: "\<forall>x\<in>set (localStorage (fst (handleSaveCart s clk))). sc_name x \<noteq> []"
    if h: "\<forall>x\<in>set (localStorage s). sc_name x \<noteq> []"
    using h updateCart_names [OF h] handleSaveCart_storage [of s clk] by metis
  have d: "\<forall>x\<in>set (localStorage (fst (handleConfirmSaveCart s clk))). sc_name x \<noteq> []"
    if h: "\<forall>x\<in>set (localStorage s). sc_name x \<noteq> []"
    using h saveCart_names [OF h, of clk "cart s" "orUndefined (cartName s)"]
    by (simp add: handleConfirmSaveCart_def Let_def)
  show ?thesis
    using saveCart_name [of storage clk c name] a b c d
      saveCart_names [of storage clk c name] updateCart_names [of storage clk cartId c name]
    by blast
qed

theorem saved_cart_name_never_emptied_witness:
  "find (\<lambda>x. sc_id x = ''cart-1'') parkedStorage = Some (parked ''cart-1'' ''Lunch'' [lineA 2])
   \<and> updateCart parkedStorage clockNoon ''cart-1'' [lineA 4] None
       = (Some keptLunch, [keptLunch, parked ''cart-2'' ''Tea'' [lineA 3]])
   \<and> sc_name keptLunch = ''Lunch''
   \<and> sc_name (fst (saveCart parkedStorage clockNoon [lineA 4] None)) = ''Cart 02/01/25 12.00''
   \<and> map sc_name parkedStorage = [''Lunch'', ''Tea'']
   \<and> [] \<notin> sc_name ` set (snd (saveCart parkedStorage clockNoon [lineA 4] None))
   \<and> [] \<notin> sc_name ` set (snd (updateCart parkedStorage clockNoon ''cart-1'' [lineA 4] None))
   \<and> map sc_name (localStorage parkedState) = [''Lunch'', ''Tea'']
   \<and> [] \<notin> sc_name ` set (localStorage (fst (handleSaveCart parkedState clockNoon)))
   \<and> [] \<notin> sc_name ` set (localStorage (fst (handleConfirmSaveCart parkedState clockNoon)))"
proof -
  have f: "find (\<lambda>x. sc_id x = ''cart-1'') parkedStorage
             = Some (parked ''cart-1'' ''Lunch'' [lineA 2])"
    by (simp add: parkedStorage_def example_defs)
  have r: "updateCart parkedStorage clockNoon ''cart-1'' [lineA 4] None
             = (Some keptLunch, [keptLunch, parked ''cart-2'' ''Tea'' [lineA 3]])"
    by (simp add: updateCart_def parkedStorage_def keptLunch_def example_defs
          cartTotal_def Let_def)
  have n: "\<forall>x\<in>set parkedStorage. sc_name x \<noteq> []"
    by (simp add: parkedStorage_def example_defs)
  have m: "\<forall>x\<in>set (localStorage parkedState). sc_name x \<noteq> []"
    by (simp add: example_defs)
  have n': "map sc_name parkedStorage = [''Lunch'', ''Tea'']"
    by (simp add: parkedStorage_def example_defs)
  have m': "map sc_name (localStorage parkedState) = [''Lunch'', ''Tea'']"
    by (simp add: example_defs)
  have k: "sc_name (parked ''cart-1'' ''Lunch'' [lineA 2]) = ''Lunch''"
    by (simp add: parked_def)
  show ?thesis
    using saved_cart_name_never_emptied
            [of parkedStorage clockNoon "[lineA 4]" None "''cart-1''" keptLunch
                "[keptLunch, parked ''cart-2'' ''Tea'' [lineA 3]]"
                "parked ''cart-1'' ''Lunch'' [lineA 2]" parkedState]
          f r n m k n' m'
    by (auto simp: clockNoon_def)
qed

section \<open>Reachable states are well formed\<close>

lemma find_None_ids: "find (\<lambda>item. ci_id item = pid) c = None \<Longrightarrow> pid \<notin> ci_id ` set c"
  by (auto simp: find_None_iff)

lemma cartOk_Nil [simp]: "cartOk []"
  by (simp add: cartOk_def)

lemma requantified_ids:
  "map ci_id (map (\<lambda>item. if ci_id item = p then item\<lparr>ci_quantity := v\<rparr> else item) c)
     = map ci_id c"
  by (induction c) auto

lemma addToCartUpdater_ok:
  assumes "cartOk c"
  shows "cartOk (fst (addToCartUpdater a product c))"
proof (cases "find (\<lambda>item. ci_id item = p_id product) c")
  case None
  with assms find_None_ids [OF None] show ?thesis
    by (auto simp: addToCartUpdater_def cartOk_def Let_def)
next
  case (Some e)
  then have "e \<in> set c" by (auto simp: find_Some_iff)
  with assms have q: "1 \<le> ci_quantity e" by (simp add: cartOk_def)
  show ?thesis
    using assms Some q
    by (auto simp: addToCartUpdater_def cartOk_def Let_def requantified_ids simp del: map_map)
qed

lemma map_filter_ids:
  assumes "\<And>x y. f x = Some y \<Longrightarrow> ci_id y = ci_id x"
  shows "ci_id ` set (List.map_filter f c) \<subseteq> ci_id ` set c"
  using assms by (induction c) (auto split: option.splits)

lemma map_filter_ok:
  assumes f: "\<And>x y. f x = Some y \<Longrightarrow> ci_id y = ci_id x"
    and q: "\<And>x y. f x = Some y \<Longrightarrow> 1 \<le> ci_quantity x \<Longrightarrow> 1 \<le> ci_quantity y"
  shows "cartOk c \<Longrightarrow> cartOk (List.map_filter f c)"
proof (induction c)
  case Nil
  then show ?case by (simp add: cartOk_def)
next
  case (Cons x c)
  then have ih: "cartOk (List.map_filter f c)" and x1: "1 \<le> ci_quantity x"
    and nx: "ci_id x \<notin> ci_id ` set c"
    by (auto simp: cartOk_def)
  show ?case
  proof (cases "f x")
    case None
    with ih show ?thesis by simp
  next
    case (Some y)
    from f [OF Some] nx map_filter_ids [of f c] f
    have "ci_id y \<notin> ci_id ` set (List.map_filter f c)" by auto
    with ih q [OF Some x1] Some show ?thesis by (auto simp: cartOk_def)
  qed
qed

lemma updateQuantityUpdater_ok:
  "cartOk c \<Longrightarrow> cartOk (fst (updateQuantityUpdater a pid delta c))"
  unfolding updateQuantityUpdater_def fst_conv
  by (rule map_filter_ok) (auto simp: updateQuantityItem_def Let_def split: if_splits)

lemma filter_ok: "cartOk c \<Longrightarrow> cartOk (filter p c)"
  by (auto simp: cartOk_def distinct_map_filter)

lemma decimal_nonempty: "decimal n \<noteq> []"
  by (subst decimal.simps) simp

lemma saveCart_ok:
  "storedOk storage \<Longrightarrow> cartOk c \<Longrightarrow> storedOk (snd (saveCart storage clk c name))
     \<and> sc_id (fst (saveCart storage clk c name)) \<noteq> []"
  by (simp add: saveCart_def Let_def storedOk_def getSavedCarts_def)

lemma updateCart_ok:
  assumes "storedOk storage" and "cartOk c"
  shows "storedOk (snd (updateCart storage clk cartId c name))"
proof (cases "fst (updateCart storage clk cartId c name)")
  case None
  then have "snd (updateCart storage clk cartId c name) = storage"
    by (auto simp: updateCart_def Let_def split: option.splits)
  with assms show ?thesis by simp
next
  case (Some u)
  then have "updateCart storage clk cartId c name
               = (Some u, snd (updateCart storage clk cartId c name))"
    by (simp add: prod_eq_iff)
  from updateCart_Some [OF this] obtain i old where
    i: "i < length storage" and old: "old = storage ! i" and
    u: "u = old\<lparr>sc_items := c, sc_total := cartTotal c, sc_updatedAt := nowISO clk,
               sc_name := (if name = None \<or> name = Some [] then sc_name old else the name)\<rparr>"
    and s: "snd (updateCart storage clk cartId c name) = storage[i := u]" by blast
  from i old assms have "sc_id old \<noteq> []" by (simp add: storedOk_def)
  with u assms have "cartOk (sc_items u) \<and> sc_id u \<noteq> []" by simp
  with assms show ?thesis
    unfolding s storedOk_def by (auto dest!: set_update_subset_insert [THEN subsetD])
qed

lemma deleteCart_ok: "storedOk storage \<Longrightarrow> storedOk (snd (deleteCart storage cartId))"
  by (simp add: deleteCart_def Let_def storedOk_def getSavedCarts_def)

lemma inv_initial: "storedOk storage \<Longrightarrow> ledgerInv (initialState storage d)"
  by (simp add: ledgerInv_def initialState_def getSavedCarts_def cartOk_def)

lemma inv_addToCart: "ledgerInv s \<Longrightarrow> ledgerInv (fst (addToCart s product))"
  by (simp add: ledgerInv_def addToCart_def Let_def addToCartUpdater_ok)

lemma inv_updateQuantity: "ledgerInv s \<Longrightarrow> ledgerInv (fst (updateQuantity s pid delta))"
  by (simp add: ledgerInv_def updateQuantity_def Let_def updateQuantityUpdater_ok)

lemma inv_removeFromCart: "ledgerInv s \<Longrightarrow> ledgerInv (removeFromCart s pid)"
  by (simp add: ledgerInv_def removeFromCart_def filter_ok)

lemma inv_handleSaveCart:
  assumes "ledgerInv s"
  shows "ledgerInv (fst (handleSaveCart s clk))"
proof (cases "currentCartId s")
  case None
  with assms show ?thesis by (simp add: handleSaveCart_def ledgerInv_def)
next
  case (Some cid)
  obtain r st where u: "updateCart (localStorage s) clk cid (cart s) (orUndefined (cartName s))
                          = (r, st)"
    by (cases "updateCart (localStorage s) clk cid (cart s) (orUndefined (cartName s))")
  from assms have "storedOk (snd (updateCart (localStorage s) clk cid (cart s)
                                    (orUndefined (cartName s))))"
    by (simp add: ledgerInv_def updateCart_ok)
  with u have st: "storedOk st" by simp
  show ?thesis
    using assms Some u st
    by (cases r) (auto simp: handleSaveCart_def ledgerInv_def getSavedCarts_def)
qed

lemma inv_handleConfirmSaveCart:
  "ledgerInv s \<Longrightarrow> ledgerInv (fst (handleConfirmSaveCart s clk))"
  using saveCart_ok [of "localStorage s" "cart s" clk "orUndefined (cartName s)"]
  by (simp add: handleConfirmSaveCart_def ledgerInv_def Let_def getSavedCarts_def)

lemma inv_handleNewCart: "ledgerInv s \<Longrightarrow> ledgerInv (handleNewCart s confirmed)"
  by (simp add: handleNewCart_def ledgerInv_def cartOk_def)

lemma inv_clearCart: "ledgerInv s \<Longrightarrow> ledgerInv (clearCart s)"
  by (simp add: clearCart_def ledgerInv_def cartOk_def)

lemma inv_handleLoadCart:
  "ledgerInv s \<Longrightarrow> savedCart \<in> set (savedCarts s)
     \<Longrightarrow> ledgerInv (handleLoadCart s savedCart confirmed)"
  by (simp add: handleLoadCart_def ledgerInv_def storedOk_def)

lemma inv_handleDeleteCart: "ledgerInv s \<Longrightarrow> ledgerInv (handleDeleteCart s cartId confirmed)"
  using deleteCart_ok [of "localStorage s" cartId]
  by (simp add: handleDeleteCart_def ledgerInv_def Let_def getSavedCarts_def)

lemma inv_handleCheckout: "ledgerInv s \<Longrightarrow> ledgerInv (handleCheckout s)"
  by (simp add: handleCheckout_def ledgerInv_def)

lemma inv_handleConfirmCheckout:
  "ledgerInv s \<Longrightarrow> ledgerInv (fst (handleConfirmCheckout s response))"
  using deleteCart_ok [of "localStorage s" "orElse (currentCartId s) []"]
  by (cases response)
     (simp_all add: handleConfirmCheckout_def ledgerInv_def Let_def getSavedCarts_def cartOk_def)

lemma reachable_ledgerInv: "reachable s \<Longrightarrow> ledgerInv s"
proof (induction rule: reachable.induct)
  case (first_visit d)
  show ?case by (rule inv_initial) (simp add: storedOk_def)
next
  case (reload s d)
  then have "storedOk (localStorage s)" by (simp add: ledgerInv_def)
  then show ?case by (rule inv_initial)
next
  case (fetched s stock d)
  then show ?case by (simp add: ledgerInv_def)
next
  case (typed s n m)
  then show ?case by (simp add: ledgerInv_def)
qed (simp_all add: inv_addToCart inv_updateQuantity inv_removeFromCart inv_handleSaveCart
       inv_handleConfirmSaveCart inv_handleNewCart inv_clearCart inv_handleLoadCart
       inv_handleDeleteCart inv_handleCheckout inv_handleConfirmCheckout)


lemma reachable_distinct: "reachable s \<Longrightarrow> distinct (map ci_id (cart s))"
  using reachable_ledgerInv [of s] by (simp add: ledgerInv_def cartOk_def)

lemma reachable_current_id: "reachable s \<Longrightarrow> currentCartId s \<noteq> Some []"
  using reachable_ledgerInv [of s] by (simp add: ledgerInv_def)

lemma in_map_filter:
  "y \<in> set (List.map_filter f xs) \<Longrightarrow> \<exists>x\<in>set xs. f x = Some y"
  by (induction xs) (auto split: option.splits)

lemma updateQuantityUpdater_floor:
  assumes d: "distinct (map ci_id c)" and x: "item \<in> set c" and i: "ci_id item = pid"
    and q: "ci_quantity item + delta \<le> 0"
  shows "pid \<notin> ci_id ` set (fst (updateQuantityUpdater a pid delta c))"
proof
  assume "pid \<in> ci_id ` set (fst (updateQuantityUpdater a pid delta c))"
  then obtain y x' where y: "ci_id y = pid" and x': "x' \<in> set c"
    and f: "fst (updateQuantityItem a pid delta x') = Some y"
    by (auto simp: updateQuantityUpdater_def dest!: in_map_filter)
  from f have "ci_id y = ci_id x'"
    by (auto simp: updateQuantityItem_def Let_def split: if_splits)
  with y i have "x' = item" using same_id_same_line [OF d x' x] by simp
  with f i q show False by (simp add: updateQuantityItem_def)
qed

lemma reservedQty_absent: "p \<notin> ci_id ` set c \<Longrightarrow> reservedQty c p = 0"
  by (induction c) (auto simp: reservedQty_def)

lemma reservedQty_Cons:
  "reservedQty (y # c) p = (if ci_id y = p then ci_quantity y else 0) + reservedQty c p"
  by (simp add: reservedQty_def)

lemma reservedQty_single:
  "distinct (map ci_id c) \<Longrightarrow> x \<in> set c \<Longrightarrow> reservedQty c (ci_id x) = ci_quantity x"
proof (induction c)
  case Nil
  then show ?case by simp
next
  case (Cons y c)
  show ?case
  proof (cases "x = y")
    case True
    with Cons.prems show ?thesis by (simp add: reservedQty_Cons reservedQty_absent)
  next
    case False
    with Cons.prems have x: "x \<in> set c" and "ci_id y \<noteq> ci_id x" by auto
    with Cons show ?thesis by (simp add: reservedQty_Cons)
  qed
qed

lemma addToCartUpdater_adds_one:
  assumes d: "distinct (map ci_id c)" and ok: "snd (addToCartUpdater a product c) = None"
  shows "reservedQty (fst (addToCartUpdater a product c)) (p_id product)
           = reservedQty c (p_id product) + 1"
proof (cases "find (\<lambda>item. ci_id item = p_id product) c")
  case None
  have "reservedQty (c @ [x]) (ci_id x) = reservedQty c (ci_id x) + ci_quantity x" for x
    by (simp add: reservedQty_def)
  with None ok show ?thesis
    by (auto simp: addToCartUpdater_def Let_def reservedQty_def split: if_splits)
next
  case (Some e)
  then have e: "e \<in> set c" and ei: "ci_id e = p_id product" by (auto simp: find_Some_iff)
  let ?c' = "map (\<lambda>item. if ci_id item = p_id product
                           then item\<lparr>ci_quantity := ci_quantity e + 1\<rparr> else item) c"
  have d': "distinct (map ci_id ?c')" using d by (simp add: requantified_ids del: map_map)
  have m: "e\<lparr>ci_quantity := ci_quantity e + 1\<rparr> \<in> set ?c'" using e ei by force
  have "reservedQty ?c' (ci_id (e\<lparr>ci_quantity := ci_quantity e + 1\<rparr>))
          = ci_quantity (e\<lparr>ci_quantity := ci_quantity e + 1\<rparr>)"
    by (rule reservedQty_single [OF d' m])
  then have r': "reservedQty ?c' (p_id product) = ci_quantity e + 1" using ei by simp
  have r: "reservedQty c (p_id product) = ci_quantity e"
    using reservedQty_single [OF d e] ei by simp
  from Some ok have "fst (addToCartUpdater a product c) = ?c'"
    by (auto simp: addToCartUpdater_def Let_def split: if_splits)
  with r r' show ?thesis by simp
qed

section \<open>C8: every line of the live cart has a quantity of at least 1\<close>

text \<open>
  Claim C8. In every state the page can reach from its first visit, every line of the
  live cart has a quantity of at least 1. An accepted \<^verbatim>\<open>addToCart\<close> raises the quantity
  of its product in the cart by exactly 1 (a new line of quantity 1, or the existing line
  incremented), and \<^verbatim>\<open>updateQuantity\<close> with a delta that brings the line of a product
  to 0 or below leaves no line of that product in the cart.
\<close>

theorem cart_quantities_positive:
  "(reachable s \<longrightarrow> (\<forall>item\<in>set (cart s). 1 \<le> ci_quantity item))
   \<and> (reachable s \<and> snd (addToCart s product) = None
        \<longrightarrow> reservedQty (cart (fst (addToCart s product))) (p_id product)
              = reservedQty (cart s) (p_id product) + 1)
   \<and> (reachable s \<and> item \<in> set (cart s) \<and> ci_id item = pid \<and> ci_quantity item + delta \<le> 0
        \<longrightarrow> pid \<notin> ci_id ` set (cart (fst (updateQuantity s pid delta))))"
proof -
  have a: "\<forall>item\<in>set (cart s). 1 \<le> ci_quantity item" if "reachable s"
    using reachable_ledgerInv [OF that] by (simp add: ledgerInv_def cartOk_def)
  have b: "reservedQty (cart (fst (addToCart s product))) (p_id product)
              = reservedQty (cart s) (p_id product) + 1"
    if "reachable s" and "snd (addToCart s product) = None"
    using addToCartUpdater_adds_one [OF reachable_distinct [OF that(1)],
            of "computeAvailable s (p_id product)" product] that(2)
    by (simp add: addToCart_def Let_def)
  have c: "pid \<notin> ci_id ` set (cart (fst (updateQuantity s pid delta)))"
    if "reachable s" and "item \<in> set (cart s)" and "ci_id item = pid"
      and "ci_quantity item + delta \<le> 0"
    using updateQuantityUpdater_floor [OF reachable_distinct [OF that(1)] that(2,3,4)]
    by (simp add: updateQuantity_def Let_def)
  from a b c show ?thesis by blast
qed

theorem cart_quantities_positive_witness:
  "reachable firstClick
   \<and> cart firstClick = [lineA 1]
   \<and> map ci_quantity (cart firstClick) = [1]
   \<and> snd (addToCart firstClick productA) = None
   \<and> reservedQty (cart (fst (addToCart firstClick productA))) (p_id productA) = 2
   \<and> lineA 1 \<in> set (cart firstClick) \<and> ci_id (lineA 1) = ''A''
   \<and> ci_quantity (lineA 1) + (- 1) \<le> 0
   \<and> ''A'' \<notin> ci_id ` set (cart (fst (updateQuantity firstClick ''A'' (- 1))))"
proof -
  have r: "reachable firstClick"
    unfolding firstClick_def by (intro reachable.add reachable.fetched reachable.first_visit)
  have c: "cart firstClick = [lineA 1]" by code_simp
  have a: "snd (addToCart firstClick productA) = None" by code_simp
  have q: "reservedQty (cart firstClick) (p_id productA) = 1"
    unfolding c by (simp add: reservedQty_def lineA_def productA_def)
  have l: "ci_id (lineA 1) = ''A'' \<and> ci_quantity (lineA 1) + (- 1) \<le> 0"
    by (simp add: lineA_def)
  show ?thesis
    using cart_quantities_positive [of firstClick productA "lineA 1" "''A''" "- 1"] r c a q l
    by (simp add: lineA_def)
qed

end
